theory Spec2Isabelle
  imports Main
begin

section \<open>Values, exceptions and responses\<close>

text \<open>
  The service is one Python module, \<^verbatim>\<open>app.py\<close>, with two Flask view functions,
  \<^verbatim>\<open>home\<close> and \<^verbatim>\<open>employees\<close>, and one module-level pymysql connection \<^verbatim>\<open>db\<close>.
  The connection is created without a cursor class, so a fetched row is a tuple of column
  values: a list of values here. The values are those the converters of pymysql hand
  back: \<^verbatim>\<open>None\<close> for NULL, \<^verbatim>\<open>int\<close>, \<^verbatim>\<open>float\<close>, \<^verbatim>\<open>Decimal\<close>, \<^verbatim>\<open>str\<close>, \<^verbatim>\<open>bytes\<close>,
  \<^verbatim>\<open>datetime\<close>, \<^verbatim>\<open>date\<close> and \<^verbatim>\<open>timedelta\<close>. A float is carried by the literal the JSON
  encoder writes for it, a Decimal by the text \<^verbatim>\<open>str\<close> gives for it, a datetime or date
  by the text \<^verbatim>\<open>http_date\<close> gives for it, a timedelta by its microseconds.
\<close>

datatype pyval =
    PNone | PInt int | PFloat string | PDecimal string | PStr string | PBytes string
  | PDatetime string | PDate string | PTimedelta int

type_synonym row = "pyval list"

text \<open>
  Python's exception hierarchy, as far as \<^verbatim>\<open>except Exception\<close> can tell: every class
  derives from \<^verbatim>\<open>BaseException\<close>; \<^verbatim>\<open>KeyboardInterrupt\<close>, \<^verbatim>\<open>SystemExit\<close> and
  \<^verbatim>\<open>GeneratorExit\<close> do not derive from \<^verbatim>\<open>Exception\<close>, all others named here do
  (the errors of pymysql derive from \<^verbatim>\<open>pymysql.err.MySQLError\<close>, a subclass of
  \<^verbatim>\<open>Exception\<close>). An exception value carries its class and the text \<^verbatim>\<open>str(e)\<close> gives.
\<close>

datatype exn_class =
    KeyboardInterrupt | SystemExit | GeneratorExit
  | IndexError | TypeError | MySQLError | OtherException

datatype pyexn = PyExn (exn_cls: exn_class) (str: string)

fun isinstance_Exception :: "pyexn \<Rightarrow> bool" where
  "isinstance_Exception (PyExn KeyboardInterrupt _) = False"
| "isinstance_Exception (PyExn SystemExit _) = False"
| "isinstance_Exception (PyExn GeneratorExit _) = False"
| "isinstance_Exception (PyExn _ _) = True"

text \<open>JSON values: what \<^verbatim>\<open>jsonify\<close> puts into the body of its response.\<close>

datatype json =
    JNull | JInt int | JFloat string | JStr string
  | JArr "json list" | JObj "(string \<times> json) list"

text \<open>
  A view function returns either the response object built by \<^verbatim>\<open>jsonify\<close> or a plain
  \<^verbatim>\<open>str\<close>.
\<close>

datatype view_result = Response json | Str string

section \<open>The store\<close>

text \<open>
  The pymysql connection is an external collaborator, shared by all calls. Its state is
  what it does when called: what \<^verbatim>\<open>execute\<close> yields for a statement in the present
  state of the connection (an exception or a result set), whether that exception is a
  failure of the network, and the statements handed to \<^verbatim>\<open>execute\<close> so far. The rows of
  the \<^verbatim>\<open>employees\<close> table, in the order the store returns them, are the answer to the
  statement of the handler. The handler sends a query only, so what a writing statement
  would do to later answers is not part of the model.
\<close>

record db =
  answer :: "string \<Rightarrow> pyexn + row list"
  lost :: "string \<Rightarrow> bool"
  statements :: "string list"

text \<open>
  When reading or writing the socket fails, pymysql closes the socket before it raises,
  and nothing in \<^verbatim>\<open>app.py\<close> connects again. On a connection without a socket every
  \<^verbatim>\<open>execute\<close> raises \<^verbatim>\<open>InterfaceError(0, '')\<close>, whose text is \<^verbatim>\<open>(0, '')\<close>. An error the
  server itself reports leaves the connection open.
\<close>

definition InterfaceError_closed :: pyexn where
  "InterfaceError_closed = PyExn MySQLError (''(0, '' @ [CHR 0x27, CHR 0x27] @ '')'')"

definition force_close :: "db \<Rightarrow> db" where
  "force_close d = d\<lparr>answer := (\<lambda>q. Inl InterfaceError_closed), lost := (\<lambda>q. False)\<rparr>"

text \<open>
  \<^verbatim>\<open>db.cursor()\<close> only builds a cursor object and raises nothing. A cursor buffers the
  result set of its last \<^verbatim>\<open>execute\<close>; a new one has none. \<^verbatim>\<open>fetchall\<close> on a cursor that
  has executed returns the buffered rows and raises nothing.
\<close>

type_synonym cursor = "row list"

definition db_cursor :: "db \<Rightarrow> cursor" where
  "db_cursor d = []"

definition cursor_execute :: "cursor \<Rightarrow> string \<Rightarrow> db \<Rightarrow> (pyexn + cursor) \<times> db" where
  "cursor_execute c q d =
     (let d' = d\<lparr>statements := statements d @ [q]\<rparr>
      in case answer d q of
           Inl e \<Rightarrow> (Inl e, if lost d q then force_close d' else d')
         | Inr rows \<Rightarrow> (Inr rows, d'))"

definition cursor_fetchall :: "cursor \<Rightarrow> row list" where
  "cursor_fetchall c = c"

section \<open>The view functions\<close>

text \<open>\<^verbatim>\<open>def home(): return "<h2>Hello from Flask App on EC2 via ALB!</h2>"\<close>\<close>

definition home :: "db \<Rightarrow> (pyexn + view_result) \<times> db" where
  "home d = (Inr (Str ''<h2>Hello from Flask App on EC2 via ALB!</h2>''), d)"

text \<open>
  \<^verbatim>\<open>r[i]\<close> on a tuple, for the indices \<open>0\<close> and \<open>1\<close> the handler uses: out of range it
  raises \<^verbatim>\<open>IndexError\<close>. The function is polymorphic in the values: it looks only at the
  length of the tuple.
\<close>

definition tuple_getitem :: "'v list \<Rightarrow> nat \<Rightarrow> pyexn + 'v" where
  "tuple_getitem r i =
     (if i < length r then Inr (r ! i) else Inl (PyExn IndexError ''tuple index out of range''))"

text \<open>
  \<^verbatim>\<open>{"id": r[0], "name": r[1]}\<close>: a dict with two keys in insertion order, as an
  association list. \<^verbatim>\<open>r[0]\<close> is evaluated before \<^verbatim>\<open>r[1]\<close>.
\<close>

definition employee_dict :: "'v list \<Rightarrow> pyexn + (string \<times> 'v) list" where
  "employee_dict r =
     (case tuple_getitem r 0 of
        Inl e \<Rightarrow> Inl e
      | Inr v0 \<Rightarrow>
          (case tuple_getitem r 1 of
             Inl e \<Rightarrow> Inl e
           | Inr v1 \<Rightarrow> Inr [(''id'', v0), (''name'', v1)]))"

text \<open>
  \<^verbatim>\<open>[{"id": r[0], "name": r[1]} for r in rows]\<close>: the rows in order; the first row that
  raises ends the comprehension.
\<close>

fun comprehension :: "'v list list \<Rightarrow> pyexn + (string \<times> 'v) list list" where
  "comprehension [] = Inr []"
| "comprehension (r # rows) =
     (case employee_dict r of
        Inl e \<Rightarrow> Inl e
      | Inr d \<Rightarrow> (case comprehension rows of Inl e \<Rightarrow> Inl e | Inr ds \<Rightarrow> Inr (d # ds)))"

text \<open>
  \<^verbatim>\<open>jsonify\<close> is Flask's. Its encoder writes None as null, an int and a float as a number
  and a str as a string; its default handler writes a Decimal as the string \<^verbatim>\<open>str\<close>
  gives and a datetime or date as the string \<^verbatim>\<open>http_date\<close> gives, and raises
  \<^verbatim>\<open>TypeError\<close> on every other value, here bytes and timedelta. A dict becomes an object,
  a list an array, and the first value that raises ends the encoding. The encoder writes
  the keys of a dict in sorted order, which for \<open>id\<close> and \<open>name\<close> is the order of
  insertion.
\<close>

fun dumps_val :: "pyval \<Rightarrow> pyexn + json" where
  "dumps_val PNone = Inr JNull"
| "dumps_val (PInt n) = Inr (JInt n)"
| "dumps_val (PFloat f) = Inr (JFloat f)"
| "dumps_val (PDecimal s) = Inr (JStr s)"
| "dumps_val (PStr s) = Inr (JStr s)"
| "dumps_val (PBytes b) = Inl (PyExn TypeError ''Object of type bytes is not JSON serializable'')"
| "dumps_val (PDatetime t) = Inr (JStr t)"
| "dumps_val (PDate t) = Inr (JStr t)"
| "dumps_val (PTimedelta u) =
     Inl (PyExn TypeError ''Object of type timedelta is not JSON serializable'')"

fun dumps_dict :: "(string \<times> pyval) list \<Rightarrow> pyexn + (string \<times> json) list" where
  "dumps_dict [] = Inr []"
| "dumps_dict ((k, v) # kvs) =
     (case dumps_val v of
        Inl e \<Rightarrow> Inl e
      | Inr j \<Rightarrow> (case dumps_dict kvs of Inl e \<Rightarrow> Inl e | Inr js \<Rightarrow> Inr ((k, j) # js)))"

fun dumps_list :: "(string \<times> pyval) list list \<Rightarrow> pyexn + json list" where
  "dumps_list [] = Inr []"
| "dumps_list (d # ds) =
     (case dumps_dict d of
        Inl e \<Rightarrow> Inl e
      | Inr j \<Rightarrow> (case dumps_list ds of Inl e \<Rightarrow> Inl e | Inr js \<Rightarrow> Inr (JObj j # js)))"

definition jsonify :: "(string \<times> pyval) list list \<Rightarrow> pyexn + view_result" where
  "jsonify data = (case dumps_list data of Inl e \<Rightarrow> Inl e | Inr js \<Rightarrow> Inr (Response (JArr js)))"

text \<open>The statement of the handler.\<close>

definition SELECT_employees :: string where
  "SELECT_employees = ''SELECT * FROM employees;''"

text \<open>
  The body of the \<^verbatim>\<open>try\<close> block of \<^verbatim>\<open>employees\<close>, statement by statement; \<open>Inl\<close> is an
  exception on its way to the \<^verbatim>\<open>except\<close> clause.
\<close>

definition employees_try :: "db \<Rightarrow> (pyexn + view_result) \<times> db" where
  "employees_try d =
     (let cursor = db_cursor d
      in case cursor_execute cursor SELECT_employees d of
           (Inl e, d1) \<Rightarrow> (Inl e, d1)
         | (Inr cursor1, d1) \<Rightarrow>
             (let rows = cursor_fetchall cursor1
              in case comprehension rows of
                   Inl e \<Rightarrow> (Inl e, d1)
                 | Inr data \<Rightarrow> (jsonify data, d1)))"

text \<open>
  \<^verbatim>\<open>except Exception as e: return str(e)\<close>: an exception that is an instance of
  \<^verbatim>\<open>Exception\<close> becomes the returned text; any other leaves the function.
\<close>

definition employees :: "db \<Rightarrow> (pyexn + view_result) \<times> db" where
  "employees d =
     (case employees_try d of
        (Inl e, d') \<Rightarrow> (if isinstance_Exception e then (Inr (Str (str e)), d') else (Inl e, d'))
      | (Inr r, d') \<Rightarrow> (Inr r, d'))"

section \<open>The HTTP surface\<close>

record http_response =
  status :: nat
  mimetype :: string
  body :: view_result

text \<open>
  Modelled from the spec: the HTTP framework that turns the value a view function returns
  into a response is not part of the repository. By the table of the HTTP surface both
  routes answer with status 200; the body is a JSON document when the handler returns the
  response of \<^verbatim>\<open>jsonify\<close> and the text itself when it returns a string. An exception that
  leaves the view function is not answered here: it stays an exception.
\<close>

definition make_response :: "view_result \<Rightarrow> http_response" where
  "make_response v =
     \<lparr>status = 200,
      mimetype = (case v of Response _ \<Rightarrow> ''application/json'' | Str _ \<Rightarrow> ''text/html''),
      body = v\<rparr>"

datatype request = GET_root | GET_employees

fun view_function :: "request \<Rightarrow> db \<Rightarrow> (pyexn + view_result) \<times> db" where
  "view_function GET_root = home"
| "view_function GET_employees = employees"

definition serve :: "request \<Rightarrow> db \<Rightarrow> (pyexn + http_response) \<times> db" where
  "serve rq d =
     (case view_function rq d of
        (Inl e, d') \<Rightarrow> (Inl e, d')
      | (Inr v, d') \<Rightarrow> (Inr (make_response v), d'))"

section \<open>Reading a state and a response, and stores to try the handlers on\<close>

text \<open>
  The states in which a call of \<open>employees\<close> loses the connection: the statement of the
  handler fails on the network.
\<close>

definition loses_connection :: "db \<Rightarrow> bool" where
  "loses_connection d =
     (case answer d SELECT_employees of Inl e \<Rightarrow> lost d SELECT_employees | Inr rows \<Rightarrow> False)"

text \<open>The value of a field of a JSON object.\<close>

fun json_field :: "json \<Rightarrow> string \<Rightarrow> json option" where
  "json_field (JObj kvs) k = map_of kvs k"
| "json_field _ k = None"

text \<open>
  A reachable store whose \<^verbatim>\<open>employees\<close> table holds the given rows, with nothing sent
  yet; the server rejects every other statement.
\<close>

definition table_db :: "row list \<Rightarrow> db" where
  "table_db rows =
     \<lparr>answer = (\<lambda>q. if q = SELECT_employees then Inr rows
                     else Inl (PyExn MySQLError ''(1064, 'You have an error in your SQL syntax')'')),
      lost = (\<lambda>q. False),
      statements = []\<rparr>"

definition alice_bob_db :: db where
  "alice_bob_db = table_db [[PInt 1, PStr ''Alice''], [PInt 2, PStr ''Bob'']]"

text \<open>
  A store to which the connection breaks while a statement is executed, with the given
  exception.
\<close>

definition failing_db :: "pyexn \<Rightarrow> db" where
  "failing_db e = \<lparr>answer = (\<lambda>q. Inl e), lost = (\<lambda>q. True), statements = []\<rparr>"

definition lost_connection :: pyexn where
  "lost_connection = PyExn MySQLError ''(2013, 'Lost connection to MySQL server during query')''"

text \<open>A connection that has been closed.\<close>

definition closed_db :: db where
  "closed_db = \<lparr>answer = (\<lambda>q. Inl InterfaceError_closed), lost = (\<lambda>q. False), statements = []\<rparr>"

section \<open>The mapping of rows\<close>

lemma employee_dict_cases:
  "employee_dict r =
     (if 2 \<le> length r then Inr [(''id'', r ! 0), (''name'', r ! 1)]
      else Inl (PyExn IndexError ''tuple index out of range''))"
  by (auto simp add: employee_dict_def tuple_getitem_def)

lemma comprehension_cases:
  "comprehension rows =
     (if list_all (\<lambda>r. 2 \<le> length r) rows
      then Inr (map (\<lambda>r. [(''id'', r ! 0), (''name'', r ! 1)]) rows)
      else Inl (PyExn IndexError ''tuple index out of range''))"
  by (induction rows) (simp_all add: employee_dict_cases)

lemma employee_dict_take: "employee_dict (take 2 r) = employee_dict r"
  by (auto simp add: employee_dict_cases)

lemma comprehension_take: "comprehension (map (take 2) rows) = comprehension rows"
  by (induction rows) (simp_all add: employee_dict_take cong: sum.case_cong)

section \<open>The encoding of the mapped rows\<close>

lemma dumps_val_raises: "dumps_val v = Inl e \<Longrightarrow> exn_cls e = TypeError"
  by (cases v) auto

lemma dumps_dict_raises: "dumps_dict kvs = Inl e \<Longrightarrow> exn_cls e = TypeError"
  by (induction kvs rule: dumps_dict.induct) (auto split: sum.splits dest: dumps_val_raises)

lemma dumps_list_raises: "dumps_list ds = Inl e \<Longrightarrow> exn_cls e = TypeError"
  by (induction ds) (auto split: sum.splits dest: dumps_dict_raises)

lemma jsonify_raises: "jsonify data = Inl e \<Longrightarrow> isinstance_Exception e"
proof -
  assume "jsonify data = Inl e"
  then have "exn_cls e = TypeError"
    by (auto simp add: jsonify_def split: sum.splits dest: dumps_list_raises)
  then show ?thesis by (cases e) simp
qed

lemma comprehension_raises: "comprehension rows = Inl e \<Longrightarrow> isinstance_Exception e"
  by (auto simp add: comprehension_cases split: if_splits)

lemma dumps_list_rows:
  "dumps_list (map (\<lambda>r. [(''id'', r ! 0), (''name'', r ! 1)]) rows) = Inr js \<Longrightarrow>
   length js = length rows \<and>
   (\<forall>k<length rows. \<exists>jid jname.
      dumps_val (rows ! k ! 0) = Inr jid \<and> dumps_val (rows ! k ! 1) = Inr jname \<and>
      js ! k = JObj [(''id'', jid), (''name'', jname)])"
proof (induction rows arbitrary: js)
  case Nil
  then show ?case by simp
next
  case (Cons r rows)
  from Cons.prems obtain jid jname js' where
    r: "dumps_val (r ! 0) = Inr jid" "dumps_val (r ! 1) = Inr jname"
    and tl: "dumps_list (map (\<lambda>r. [(''id'', r ! 0), (''name'', r ! 1)]) rows) = Inr js'"
    and js: "js = JObj [(''id'', jid), (''name'', jname)] # js'"
    by (auto split: sum.splits)
  from Cons.IH [OF tl] have len: "length js' = length rows"
    and el: "\<And>k. k < length rows \<Longrightarrow> \<exists>jid jname.
      dumps_val (rows ! k ! 0) = Inr jid \<and> dumps_val (rows ! k ! 1) = Inr jname \<and>
      js' ! k = JObj [(''id'', jid), (''name'', jname)]"
    by auto
  show ?case
  proof (intro conjI allI impI)
    show "length js = length (r # rows)" using js len by simp
  next
    fix k assume k: "k < length (r # rows)"
    show "\<exists>jid jname. dumps_val ((r # rows) ! k ! 0) = Inr jid \<and>
        dumps_val ((r # rows) ! k ! 1) = Inr jname \<and> js ! k = JObj [(''id'', jid), (''name'', jname)]"
    proof (cases k)
      case 0
      then show ?thesis using r js by simp
    next
      case (Suc k')
      then show ?thesis using el [of k'] k js by simp
    qed
  qed
qed

text \<open>The encoding succeeds when the first two values of every row can be encoded.\<close>

lemma dumps_list_succeeds:
  "list_all (\<lambda>r. (\<exists>j. dumps_val (r ! 0) = Inr j) \<and> (\<exists>j. dumps_val (r ! 1) = Inr j)) rows \<Longrightarrow>
   \<exists>js. dumps_list (map (\<lambda>r. [(''id'', r ! 0), (''name'', r ! 1)]) rows) = Inr js"
  by (induction rows) auto

section \<open>The handler, read off the state of the store\<close>

lemma employees_try_fst:
  "fst (employees_try d) =
     (case answer d SELECT_employees of
        Inl e \<Rightarrow> Inl e
      | Inr rows \<Rightarrow> (case comprehension rows of Inl e \<Rightarrow> Inl e | Inr data \<Rightarrow> jsonify data))"
  by (simp add: employees_try_def db_cursor_def cursor_execute_def cursor_fetchall_def Let_def
      split: sum.splits)

lemma employees_try_store:
  "snd (employees_try d) =
     (if loses_connection d
      then force_close (d\<lparr>statements := statements d @ [SELECT_employees]\<rparr>)
      else d\<lparr>statements := statements d @ [SELECT_employees]\<rparr>)"
  by (simp add: employees_try_def db_cursor_def cursor_execute_def cursor_fetchall_def Let_def
      loses_connection_def split: sum.splits)

lemma employees_fst:
  "fst (employees d) =
     (case fst (employees_try d) of
        Inl e \<Rightarrow> if isinstance_Exception e then Inr (Str (str e)) else Inl e
      | Inr r \<Rightarrow> Inr r)"
  by (simp add: employees_def split: prod.splits sum.splits)

lemma employees_snd: "snd (employees d) = snd (employees_try d)"
  by (simp add: employees_def split: prod.splits sum.splits)

lemma employees_store:
  "snd (employees d) =
     (if loses_connection d
      then force_close (d\<lparr>statements := statements d @ [SELECT_employees]\<rparr>)
      else d\<lparr>statements := statements d @ [SELECT_employees]\<rparr>)"
  by (simp only: employees_snd employees_try_store)

lemma employees_statements_irrelevant:
  "fst (employees (d\<lparr>statements := s\<rparr>)) = fst (employees d)"
  by (simp add: employees_fst employees_try_fst)

lemma employees_after_close:
  "fst (employees (force_close d)) = Inr (Str (str InterfaceError_closed))"
  by (simp add: employees_fst employees_try_fst force_close_def InterfaceError_closed_def)

lemma employees_rows:
  assumes "answer d SELECT_employees = Inr rows"
  shows "fst (employees d) =
     (if list_all (\<lambda>r. 2 \<le> length r) rows
      then (case jsonify (map (\<lambda>r. [(''id'', r ! 0), (''name'', r ! 1)]) rows) of
              Inl e \<Rightarrow> Inr (Str (str e))
            | Inr v \<Rightarrow> Inr v)
      else Inr (Str ''tuple index out of range''))"
  using assms
  by (auto simp add: employees_fst employees_try_fst comprehension_cases
      split: sum.splits dest: jsonify_raises)

lemma employees_raised:
  assumes "answer d SELECT_employees = Inl e \<or>
     (\<exists>rows. answer d SELECT_employees = Inr rows \<and>
        (comprehension rows = Inl e \<or>
          (\<exists>data. comprehension rows = Inr data \<and> jsonify data = Inl e)))"
  shows "fst (employees_try d) = Inl e"
  using assms by (auto simp add: employees_try_fst)

lemma employees_Response_shape:
  assumes rows: "answer d SELECT_employees = Inr rows"
    and ok: "fst (employees d) = Inr (Response j)"
  shows "list_all (\<lambda>r. 2 \<le> length r) rows \<and>
    (\<exists>js. j = JArr js \<and>
      dumps_list (map (\<lambda>r. [(''id'', r ! 0), (''name'', r ! 1)]) rows) = Inr js)"
  using ok rows
  by (auto simp add: employees_fst employees_try_fst comprehension_cases jsonify_def
      split: sum.splits if_splits)

lemma employees_succeeds:
  assumes "answer d SELECT_employees = Inr rows"
    and "list_all (\<lambda>r. 2 \<le> length r) rows"
    and "list_all (\<lambda>r. (\<exists>j. dumps_val (r ! 0) = Inr j) \<and> (\<exists>j. dumps_val (r ! 1) = Inr j)) rows"
  shows "\<exists>js. fst (employees d) = Inr (Response (JArr js))"
proof -
  from dumps_list_succeeds [OF assms(3)] obtain js where
    "dumps_list (map (\<lambda>r. [(''id'', r ! 0), (''name'', r ! 1)]) rows) = Inr js" ..
  with assms(1,2) have "fst (employees d) = Inr (Response (JArr js))"
    by (simp add: employees_fst employees_try_fst comprehension_cases jsonify_def)
  then show ?thesis ..
qed

lemma serve_fst:
  "fst (serve rq d) =
     (case fst (view_function rq d) of Inl e \<Rightarrow> Inl e | Inr v \<Rightarrow> Inr (make_response v))"
  by (simp add: serve_def split: prod.splits sum.splits)

lemma serve_snd: "snd (serve rq d) = snd (view_function rq d)"
  by (simp add: serve_def split: prod.splits sum.splits)

lemma alice_bob_answer:
  "answer alice_bob_db SELECT_employees = Inr [[PInt 1, PStr ''Alice''], [PInt 2, PStr ''Bob'']]"
  by (simp add: alice_bob_db_def table_db_def)

lemma alice_bob_stays: "\<not> loses_connection alice_bob_db"
  by (simp add: loses_connection_def alice_bob_answer)

lemma failing_db_loses: "loses_connection (failing_db e)"
  by (simp add: loses_connection_def failing_db_def)

section \<open>The employees operation on its success path\<close>



text \<open>
  C3. When the store returns zero rows, \<open>employees\<close> returns the empty JSON array: not
  null, not a text, and it is served as JSON with status 200.
\<close>

theorem employees_empty_table:
  assumes "answer d SELECT_employees = Inr []"
  shows "fst (employees d) = Inr (Response (JArr [])) \<and>
    fst (serve GET_employees d) =
      Inr \<lparr>status = 200, mimetype = ''application/json'', body = Response (JArr [])\<rparr>"
  using assms
  by (simp add: serve_fst make_response_def employees_fst employees_try_fst jsonify_def)

text \<open>The empty table behind a reachable store.\<close>

theorem employees_empty_table_witness:
  "answer (table_db []) SELECT_employees = Inr [] \<and>
   fst (employees (table_db [])) = Inr (Response (JArr [])) \<and>
   fst (serve GET_employees (table_db [])) =
      Inr \<lparr>status = 200, mimetype = ''application/json'', body = Response (JArr [])\<rparr>"
proof -
  have h: "answer (table_db []) SELECT_employees = Inr []"
    by (simp add: table_db_def)
  from employees_empty_table [OF h] h show ?thesis by blast
qed

section \<open>The positional mapping\<close>

text \<open>
  C4. The mapping is positional: a row is a tuple without column names. For the rows the
  store returns, the handler answers with the encoding of the records that pair \<open>id\<close>
  with the value at position 0 and \<open>name\<close> with the value at position 1 of each row, in
  the order of the rows (or with the message of the \<^verbatim>\<open>IndexError\<close> when a row is
  shorter); the comprehension yields exactly these records. The columns after the second
  have no effect: dropping them from every row changes neither the mapped rows nor the
  result of the handler.
\<close>

theorem employees_positional:
  "(answer d SELECT_employees = Inr rows \<longrightarrow>
      fst (employees d) =
        (if list_all (\<lambda>r. 2 \<le> length r) rows
         then (case jsonify (map (\<lambda>r. [(''id'', r ! 0), (''name'', r ! 1)]) rows) of
                 Inl e \<Rightarrow> Inr (Str (str e))
               | Inr v \<Rightarrow> Inr v)
         else Inr (Str ''tuple index out of range''))) \<and>
   comprehension rows' =
     (if list_all (\<lambda>r. 2 \<le> length r) rows'
      then Inr (map (\<lambda>r. [(''id'', r ! 0), (''name'', r ! 1)]) rows')
      else Inl (PyExn IndexError ''tuple index out of range'')) \<and>
   employee_dict (v0 # v1 # rest) = Inr [(''id'', v0), (''name'', v1)] \<and>
   comprehension (map (take 2) rows') = comprehension rows' \<and>
   fst (employees (d'\<lparr>answer := \<lambda>q. map_sum (\<lambda>e. e) (map (take 2)) (answer d' q)\<rparr>)) =
     fst (employees d')"
proof -
  have "employee_dict (v0 # v1 # rest) = Inr [(''id'', v0), (''name'', v1)]"
    by (simp add: employee_dict_cases)
  moreover have
    "fst (employees (d'\<lparr>answer := \<lambda>q. map_sum (\<lambda>e. e) (map (take 2)) (answer d' q)\<rparr>)) =
       fst (employees d')"
    by (cases "answer d' SELECT_employees")
      (simp_all add: employees_fst employees_try_fst comprehension_take)
  moreover have "answer d SELECT_employees = Inr rows \<longrightarrow>
      fst (employees d) =
        (if list_all (\<lambda>r. 2 \<le> length r) rows
         then (case jsonify (map (\<lambda>r. [(''id'', r ! 0), (''name'', r ! 1)]) rows) of
                 Inl e \<Rightarrow> Inr (Str (str e))
               | Inr v \<Rightarrow> Inr v)
         else Inr (Str ''tuple index out of range''))"
    using employees_rows [of d rows] by blast
  ultimately show ?thesis
    using comprehension_cases [of rows'] comprehension_take [of rows'] by blast
qed

text \<open>
  A table with a third column, the row (1, "Alice", "Sales"): the response is
  \<^verbatim>\<open>[{"id":1,"name":"Alice"}]\<close>, and the third value does not show.
\<close>

theorem employees_positional_witness:
  "answer (table_db [[PInt 1, PStr ''Alice'', PStr ''Sales'']]) SELECT_employees =
     Inr [[PInt 1, PStr ''Alice'', PStr ''Sales'']] \<and>
   fst (employees (table_db [[PInt 1, PStr ''Alice'', PStr ''Sales'']])) =
     Inr (Response (JArr [JObj [(''id'', JInt 1), (''name'', JStr ''Alice'')]])) \<and>
   comprehension [[PInt 1, PStr ''Alice'', PStr ''Sales'']] =
     Inr [[(''id'', PInt 1), (''name'', PStr ''Alice'')]] \<and>
   employee_dict [PInt 1, PStr ''Alice'', PStr ''Sales''] =
     Inr [(''id'', PInt 1), (''name'', PStr ''Alice'')]"
proof -
  have h: "answer (table_db [[PInt 1, PStr ''Alice'', PStr ''Sales'']]) SELECT_employees =
     Inr [[PInt 1, PStr ''Alice'', PStr ''Sales'']]"
    by (simp add: table_db_def)
  from employees_positional
    [of "table_db [[PInt 1, PStr ''Alice'', PStr ''Sales'']]"
        "[[PInt 1, PStr ''Alice'', PStr ''Sales'']]"
        "[[PInt 1, PStr ''Alice'', PStr ''Sales'']]"
        "PInt 1" "PStr ''Alice''" "[PStr ''Sales'']"] h
  show ?thesis by (simp add: jsonify_def)
qed

text \<open>
  C10, as the code has it. The mapping neither checks nor converts a value. It is the
  same function at every type of values \<open>'v\<close>: when every row has two columns, the mapped
  rows carry the first and the second value of each row as they are. What conversion
  there is happens in \<^verbatim>\<open>jsonify\<close>: in a response the \<open>id\<close> of the \<open>k\<close>-th object is the
  JSON integer \<open>n\<close> exactly when the first column of the \<open>k\<close>-th row is the integer \<open>n\<close>,
  but its \<open>name\<close> is the JSON string \<open>s\<close> exactly when the second column is the text \<open>s\<close>
  or a Decimal, datetime or date that is written as \<open>s\<close>.
\<close>

theorem employees_fields_verbatim:
  "(list_all (\<lambda>r. 2 \<le> length r) (rows :: 'v list list) \<longrightarrow>
      comprehension rows = Inr (map (\<lambda>r. [(''id'', r ! 0), (''name'', r ! 1)]) rows)) \<and>
   (answer d SELECT_employees = Inr trows \<and> fst (employees d) = Inr (Response (JArr js)) \<and>
    k < length trows \<longrightarrow>
      (json_field (js ! k) ''id'' = Some (JInt n) \<longleftrightarrow> trows ! k ! 0 = PInt n) \<and>
      (json_field (js ! k) ''name'' = Some (JStr s) \<longleftrightarrow>
         trows ! k ! 1 = PStr s \<or> trows ! k ! 1 = PDecimal s \<or>
         trows ! k ! 1 = PDatetime s \<or> trows ! k ! 1 = PDate s))"
proof (intro conjI impI)
  show "list_all (\<lambda>r. 2 \<le> length r) rows \<Longrightarrow>
      comprehension rows = Inr (map (\<lambda>r. [(''id'', r ! 0), (''name'', r ! 1)]) rows)"
    by (simp add: comprehension_cases)
next
  assume a: "answer d SELECT_employees = Inr trows \<and>
    fst (employees d) = Inr (Response (JArr js)) \<and> k < length trows"
  then have "dumps_list (map (\<lambda>r. [(''id'', r ! 0), (''name'', r ! 1)]) trows) = Inr js"
    using employees_Response_shape [of d trows "JArr js"] by simp
  from dumps_list_rows [OF this] a obtain jid jname where
    f: "dumps_val (trows ! k ! 0) = Inr jid" "dumps_val (trows ! k ! 1) = Inr jname"
      "js ! k = JObj [(''id'', jid), (''name'', jname)]"
    by blast
  from f show "json_field (js ! k) ''id'' = Some (JInt n) \<longleftrightarrow> trows ! k ! 0 = PInt n"
    by (cases "trows ! k ! 0") auto
  from f show "json_field (js ! k) ''name'' = Some (JStr s) \<longleftrightarrow>
         trows ! k ! 1 = PStr s \<or> trows ! k ! 1 = PDecimal s \<or>
         trows ! k ! 1 = PDatetime s \<or> trows ! k ! 1 = PDate s"
    by (cases "trows ! k ! 1") auto
qed

text \<open>
  A table whose first column is text and whose second is an integer, the row ("E7", 7):
  the response is \<^verbatim>\<open>[{"id":"E7","name":7}]\<close>, with a string for \<open>id\<close> and a number for
  \<open>name\<close>.
\<close>

theorem employees_fields_verbatim_witness:
  "list_all (\<lambda>r. 2 \<le> length r) [[PStr ''E7'', PInt 7]] \<and>
   comprehension [[PStr ''E7'', PInt 7]] = Inr [[(''id'', PStr ''E7''), (''name'', PInt 7)]] \<and>
   answer (table_db [[PStr ''E7'', PInt 7]]) SELECT_employees = Inr [[PStr ''E7'', PInt 7]] \<and>
   fst (employees (table_db [[PStr ''E7'', PInt 7]])) =
     Inr (Response (JArr [JObj [(''id'', JStr ''E7''), (''name'', JInt 7)]])) \<and>
   (0::nat) < length [[PStr ''E7'', PInt 7]] \<and>
   json_field ([JObj [(''id'', JStr ''E7''), (''name'', JInt 7)]] ! 0) ''id'' \<noteq> Some (JInt 7) \<and>
   json_field ([JObj [(''id'', JStr ''E7''), (''name'', JInt 7)]] ! 0) ''name'' \<noteq> Some (JStr ''E7'')"
proof -
  have h1: "list_all (\<lambda>r. 2 \<le> length r) [[PStr ''E7'', PInt 7]]" by simp
  have h2: "answer (table_db [[PStr ''E7'', PInt 7]]) SELECT_employees = Inr [[PStr ''E7'', PInt 7]]"
    by (simp add: table_db_def)
  have h3: "fst (employees (table_db [[PStr ''E7'', PInt 7]])) =
     Inr (Response (JArr [JObj [(''id'', JStr ''E7''), (''name'', JInt 7)]]))"
    by (simp add: employees_fst employees_try_fst table_db_def employee_dict_def
        tuple_getitem_def jsonify_def)
  have h4: "(0::nat) < length [[PStr ''E7'', PInt 7]]" by simp
  from employees_fields_verbatim
    [of "[[PStr ''E7'', PInt 7]]" "table_db [[PStr ''E7'', PInt 7]]" "[[PStr ''E7'', PInt 7]]"
        "[JObj [(''id'', JStr ''E7''), (''name'', JInt 7)]]" 0 7 "''E7''"]
    h1 h2 h3 h4
  show ?thesis by simp
qed

text \<open>
  C10 as stated fails in the response: for the row (1, Decimal("1.50")) the \<open>name\<close> of the
  object is the JSON string \<^verbatim>\<open>"1.50"\<close>, though the store supplied no text there and the
  value is not the one of the row.
\<close>

theorem employees_decimal_name_is_string:
  "answer (table_db [[PInt 1, PDecimal ''1.50'']]) SELECT_employees =
     Inr [[PInt 1, PDecimal ''1.50'']] \<and>
   fst (employees (table_db [[PInt 1, PDecimal ''1.50'']])) =
     Inr (Response (JArr [JObj [(''id'', JInt 1), (''name'', JStr ''1.50'')]])) \<and>
   [[PInt 1, PDecimal ''1.50'']] ! 0 ! 1 \<noteq> PStr ''1.50''"
  by (simp add: employees_fst employees_try_fst table_db_def employee_dict_def
      tuple_getitem_def jsonify_def)

section \<open>The failure path\<close>

text \<open>
  C5. When every row has at least two columns the mapping of the rows does not raise: it
  yields one record per row. When the store returns rows of which one has fewer than two
  columns, the mapping raises \<^verbatim>\<open>IndexError\<close>, and the handler catches it and returns its
  message as a text; nothing is raised to the caller.
\<close>

theorem comprehension_fails_on_short_rows_only:
  "(list_all (\<lambda>r. 2 \<le> length r) rows \<longrightarrow>
      (\<exists>data. comprehension rows = Inr data \<and> length data = length rows)) \<and>
   (answer d SELECT_employees = Inr rows' \<and> \<not> list_all (\<lambda>r. 2 \<le> length r) rows' \<longrightarrow>
      comprehension rows' = Inl (PyExn IndexError ''tuple index out of range'') \<and>
      fst (employees d) = Inr (Str ''tuple index out of range''))"
  by (simp add: comprehension_cases employees_fst employees_try_fst)

text \<open>The row (1, "Alice") alone, and the rows (1, "Alice"), (2,) behind a reachable store.\<close>

theorem comprehension_fails_on_short_rows_only_witness:
  "list_all (\<lambda>r. 2 \<le> length r) [[PInt 1, PStr ''Alice'']] \<and>
   (\<exists>data. comprehension [[PInt 1, PStr ''Alice'']] = Inr data \<and> length data = 1) \<and>
   answer (table_db [[PInt 1, PStr ''Alice''], [PInt 2]]) SELECT_employees =
     Inr [[PInt 1, PStr ''Alice''], [PInt 2]] \<and>
   \<not> list_all (\<lambda>r. 2 \<le> length r) [[PInt 1, PStr ''Alice''], [PInt 2]] \<and>
   comprehension [[PInt 1, PStr ''Alice''], [PInt 2]] =
     Inl (PyExn IndexError ''tuple index out of range'') \<and>
   fst (employees (table_db [[PInt 1, PStr ''Alice''], [PInt 2]])) =
     Inr (Str ''tuple index out of range'')"
  using comprehension_fails_on_short_rows_only
    [of "[[PInt 1, PStr ''Alice'']]" "table_db [[PInt 1, PStr ''Alice''], [PInt 2]]"
        "[[PInt 1, PStr ''Alice''], [PInt 2]]"]
  by (simp add: table_db_def)

text \<open>
  C7. When the connection to the store is unavailable, that is when executing the
  statement raises an error of pymysql, \<open>employees\<close> raises nothing: it returns the
  message of the error as a text, which is served as text, not as JSON, with status 200.
\<close>

theorem employees_store_unavailable:
  assumes "answer d SELECT_employees = Inl e"
    and "exn_cls e = MySQLError"
  shows "fst (employees d) = Inr (Str (str e)) \<and>
    fst (serve GET_employees d) = Inr \<lparr>status = 200, mimetype = ''text/html'', body = Str (str e)\<rparr>"
proof -
  from assms(2) have "isinstance_Exception e" by (cases e) simp
  moreover from assms(1) have "fst (employees_try d) = Inl e"
    by (simp add: employees_try_fst)
  ultimately have "fst (employees d) = Inr (Str (str e))"
    by (simp add: employees_fst)
  then show ?thesis by (simp add: serve_fst make_response_def)
qed

text \<open>A closed connection: the text returned is \<^verbatim>\<open>(0, '')\<close>.\<close>

theorem employees_store_unavailable_witness:
  "answer closed_db SELECT_employees = Inl InterfaceError_closed \<and>
   exn_cls InterfaceError_closed = MySQLError \<and>
   fst (employees closed_db) = Inr (Str (''(0, '' @ [CHR 0x27, CHR 0x27] @ '')'')) \<and>
   fst (serve GET_employees closed_db) =
     Inr \<lparr>status = 200, mimetype = ''text/html'',
          body = Str (''(0, '' @ [CHR 0x27, CHR 0x27] @ '')'')\<rparr>"
proof -
  have h1: "answer closed_db SELECT_employees = Inl InterfaceError_closed"
    by (simp add: closed_db_def)
  have h2: "exn_cls InterfaceError_closed = MySQLError"
    by (simp add: InterfaceError_closed_def)
  have h3: "str InterfaceError_closed = ''(0, '' @ [CHR 0x27, CHR 0x27] @ '')''"
    by (simp add: InterfaceError_closed_def)
  from employees_store_unavailable [OF h1 h2] h1 h2 h3 show ?thesis by simp
qed

text \<open>
  C2, as the code has it. An exception raised in the \<^verbatim>\<open>try\<close> block comes from executing
  the statement, from mapping the rows or from \<^verbatim>\<open>jsonify\<close> (asking for the cursor and
  \<^verbatim>\<open>fetchall\<close> raise nothing). When it is an instance of \<^verbatim>\<open>Exception\<close> it is caught:
  \<open>employees\<close> returns its message \<^verbatim>\<open>str(e)\<close> and raises nothing, so the request is
  answered, with that text and status 200, and the process goes on; exactly one statement
  has been handed to the store, so nothing was tried again. When it is not an instance of
  \<^verbatim>\<open>Exception\<close> it is not caught: it leaves \<open>employees\<close> and the request is not answered.
\<close>

theorem employees_returns_message:
  "((answer d SELECT_employees = Inl e \<or>
      (\<exists>rows. answer d SELECT_employees = Inr rows \<and>
         (comprehension rows = Inl e \<or>
           (\<exists>data. comprehension rows = Inr data \<and> jsonify data = Inl e)))) \<and>
     isinstance_Exception e \<longrightarrow>
       fst (employees d) = Inr (Str (str e)) \<and>
       fst (serve GET_employees d) =
         Inr \<lparr>status = 200, mimetype = ''text/html'', body = Str (str e)\<rparr> \<and>
       statements (snd (employees d)) = statements d @ [SELECT_employees]) \<and>
   ((answer d' SELECT_employees = Inl e' \<or>
      (\<exists>rows. answer d' SELECT_employees = Inr rows \<and>
         (comprehension rows = Inl e' \<or>
           (\<exists>data. comprehension rows = Inr data \<and> jsonify data = Inl e')))) \<and>
     \<not> isinstance_Exception e' \<longrightarrow>
       fst (employees d') = Inl e' \<and> fst (serve GET_employees d') = Inl e')"
proof (intro conjI impI)
  assume a: "(answer d SELECT_employees = Inl e \<or>
      (\<exists>rows. answer d SELECT_employees = Inr rows \<and>
         (comprehension rows = Inl e \<or>
           (\<exists>data. comprehension rows = Inr data \<and> jsonify data = Inl e)))) \<and>
     isinstance_Exception e"
  then have "fst (employees_try d) = Inl e" by (simp add: employees_raised)
  with a show r: "fst (employees d) = Inr (Str (str e))"
    by (simp add: employees_fst)
  then show "fst (serve GET_employees d) =
      Inr \<lparr>status = 200, mimetype = ''text/html'', body = Str (str e)\<rparr>"
    by (simp add: serve_fst make_response_def)
  show "statements (snd (employees d)) = statements d @ [SELECT_employees]"
    by (simp add: employees_store force_close_def)
next
  assume a: "(answer d' SELECT_employees = Inl e' \<or>
      (\<exists>rows. answer d' SELECT_employees = Inr rows \<and>
         (comprehension rows = Inl e' \<or>
           (\<exists>data. comprehension rows = Inr data \<and> jsonify data = Inl e')))) \<and>
     \<not> isinstance_Exception e'"
  then have "fst (employees_try d') = Inl e'" by (simp add: employees_raised)
  with a show r: "fst (employees d') = Inl e'"
    by (simp add: employees_fst)
  then show "fst (serve GET_employees d') = Inl e'"
    by (simp add: serve_fst)
qed

text \<open>
  The connection is lost while the statement is executed, and the same store with a
  \<^verbatim>\<open>SystemExit\<close> raised during the statement.
\<close>

theorem employees_returns_message_witness:
  "answer (failing_db lost_connection) SELECT_employees = Inl lost_connection \<and>
   isinstance_Exception lost_connection \<and>
   fst (employees (failing_db lost_connection)) =
     Inr (Str ''(2013, 'Lost connection to MySQL server during query')'') \<and>
   fst (serve GET_employees (failing_db lost_connection)) =
     Inr \<lparr>status = 200, mimetype = ''text/html'',
          body = Str ''(2013, 'Lost connection to MySQL server during query')''\<rparr> \<and>
   statements (snd (employees (failing_db lost_connection))) = [SELECT_employees] \<and>
   answer (failing_db (PyExn SystemExit ''1'')) SELECT_employees = Inl (PyExn SystemExit ''1'') \<and>
   \<not> isinstance_Exception (PyExn SystemExit ''1'') \<and>
   fst (employees (failing_db (PyExn SystemExit ''1''))) = Inl (PyExn SystemExit ''1'') \<and>
   fst (serve GET_employees (failing_db (PyExn SystemExit ''1''))) = Inl (PyExn SystemExit ''1'')"
proof -
  have h1: "answer (failing_db lost_connection) SELECT_employees = Inl lost_connection"
    and h2: "isinstance_Exception lost_connection"
    and h3: "statements (failing_db lost_connection) = []"
    and h4: "str lost_connection = ''(2013, 'Lost connection to MySQL server during query')''"
    and h5: "answer (failing_db (PyExn SystemExit ''1'')) SELECT_employees =
      Inl (PyExn SystemExit ''1'')"
    and h6: "\<not> isinstance_Exception (PyExn SystemExit ''1'')"
    by (simp_all add: failing_db_def lost_connection_def)
  from employees_returns_message
    [of "failing_db lost_connection" lost_connection
        "failing_db (PyExn SystemExit ''1'')" "PyExn SystemExit ''1''"]
    h1 h2 h3 h4 h5 h6
  show ?thesis by simp
qed

text \<open>
  C2 as stated fails for an exception outside \<^verbatim>\<open>Exception\<close>: a \<^verbatim>\<open>KeyboardInterrupt\<close>
  raised while the statement is executed passes the \<^verbatim>\<open>except Exception\<close> clause and
  leaves \<open>employees\<close>.
\<close>

theorem employees_propagates_KeyboardInterrupt:
  "answer (failing_db (PyExn KeyboardInterrupt [])) SELECT_employees =
     Inl (PyExn KeyboardInterrupt []) \<and>
   fst (employees (failing_db (PyExn KeyboardInterrupt []))) = Inl (PyExn KeyboardInterrupt [])"
  by (simp add: employees_fst employees_try_fst failing_db_def)

section \<open>The root operation\<close>

text \<open>
  C6. \<open>home\<close> returns the fixed greeting for every state of the store and leaves the
  store as it is; the greeting is served with status 200.
\<close>

theorem home_fixed_greeting:
  "home d = (Inr (Str ''<h2>Hello from Flask App on EC2 via ALB!</h2>''), d) \<and>
   serve GET_root d =
     (Inr \<lparr>status = 200, mimetype = ''text/html'',
           body = Str ''<h2>Hello from Flask App on EC2 via ALB!</h2>''\<rparr>, d)"
  by (simp add: home_def serve_def make_response_def)

text \<open>The greeting with the connection closed.\<close>

theorem home_fixed_greeting_witness:
  "home closed_db = (Inr (Str ''<h2>Hello from Flask App on EC2 via ALB!</h2>''), closed_db) \<and>
   serve GET_root closed_db =
     (Inr \<lparr>status = 200, mimetype = ''text/html'',
           body = Str ''<h2>Hello from Flask App on EC2 via ALB!</h2>''\<rparr>, closed_db)"
  by (rule home_fixed_greeting [of closed_db])

section \<open>Repeated calls and the effect on the store\<close>

text \<open>
  C8, as the code has it. Two calls of the root operation in a row give the same result
  in every state. Two calls of the employees operation in a row, the second in the state
  the first has left, give the same result whenever the first call does not lose the
  connection. When it does, the shared connection is closed and never opened again: the
  second call answers with the text \<^verbatim>\<open>(0, '')\<close> of the closed connection, whatever the
  first call returned.
\<close>

theorem serve_twice:
  "fst (serve GET_root (snd (serve GET_root d))) = fst (serve GET_root d) \<and>
   (\<not> loses_connection d' \<longrightarrow>
      fst (serve GET_employees (snd (serve GET_employees d'))) = fst (serve GET_employees d') \<and>
      fst (employees (snd (employees d'))) = fst (employees d')) \<and>
   (loses_connection d'' \<longrightarrow>
      fst (employees (snd (employees d''))) = Inr (Str (str InterfaceError_closed)) \<and>
      fst (serve GET_employees (snd (serve GET_employees d''))) =
        Inr \<lparr>status = 200, mimetype = ''text/html'', body = Str (str InterfaceError_closed)\<rparr>)"
proof (intro conjI impI)
  show "fst (serve GET_root (snd (serve GET_root d))) = fst (serve GET_root d)"
    by (simp add: serve_fst serve_snd home_def)
next
  assume "\<not> loses_connection d'"
  then show e: "fst (employees (snd (employees d'))) = fst (employees d')"
    by (simp add: employees_store employees_statements_irrelevant)
  then show "fst (serve GET_employees (snd (serve GET_employees d'))) =
      fst (serve GET_employees d')"
    by (simp add: serve_fst serve_snd)
next
  assume "loses_connection d''"
  then show e: "fst (employees (snd (employees d''))) = Inr (Str (str InterfaceError_closed))"
    by (simp add: employees_store employees_after_close)
  then show "fst (serve GET_employees (snd (serve GET_employees d''))) =
      Inr \<lparr>status = 200, mimetype = ''text/html'', body = Str (str InterfaceError_closed)\<rparr>"
    by (simp add: serve_fst serve_snd make_response_def)
qed

text \<open>
  The store with the rows of Alice and Bob keeps its connection; the store that loses the
  connection during the statement answers the second call from the closed connection.
\<close>

theorem serve_twice_witness:
  "\<not> loses_connection alice_bob_db \<and>
   fst (employees (snd (employees alice_bob_db))) = fst (employees alice_bob_db) \<and>
   fst (serve GET_employees (snd (serve GET_employees alice_bob_db))) =
     fst (serve GET_employees alice_bob_db) \<and>
   loses_connection (failing_db lost_connection) \<and>
   fst (employees (snd (employees (failing_db lost_connection)))) =
     Inr (Str (''(0, '' @ [CHR 0x27, CHR 0x27] @ '')''))"
proof -
  note h1 = alice_bob_stays and h2 = failing_db_loses [of lost_connection]
  have h3: "str InterfaceError_closed = ''(0, '' @ [CHR 0x27, CHR 0x27] @ '')''"
    by (simp add: InterfaceError_closed_def)
  from serve_twice [of alice_bob_db alice_bob_db "failing_db lost_connection"] h1 h2 h3
  show ?thesis by simp
qed

text \<open>
  C8 as stated fails when the first call loses the connection: the first call returns
  the text of the lost connection, the second the text of the closed one.
\<close>

theorem employees_twice_differs:
  "fst (employees (failing_db lost_connection)) =
     Inr (Str ''(2013, 'Lost connection to MySQL server during query')'') \<and>
   fst (employees (snd (employees (failing_db lost_connection)))) =
     Inr (Str (''(0, '' @ [CHR 0x27, CHR 0x27] @ '')'')) \<and>
   fst (employees (snd (employees (failing_db lost_connection)))) \<noteq>
     fst (employees (failing_db lost_connection))"
  by (simp add: employees_store failing_db_loses employees_after_close InterfaceError_closed_def)
    (simp add: employees_fst employees_try_fst failing_db_def lost_connection_def)

text \<open>
  C9, as the code has it. Every call of \<open>employees\<close> hands exactly one statement to the
  store, \<^verbatim>\<open>SELECT * FROM employees;\<close>, on the success and on the failure path, and sends
  nothing that writes. When the call does not lose the connection, nothing else of the
  shared state changes. When the statement fails on the network, the call leaves the
  shared connection closed.
\<close>

theorem employees_read_only:
  "statements (snd (employees d)) = statements d @ [SELECT_employees] \<and>
   (\<not> loses_connection d' \<longrightarrow>
      snd (employees d') = d'\<lparr>statements := statements d' @ [SELECT_employees]\<rparr> \<and>
      answer (snd (employees d')) = answer d' \<and> lost (snd (employees d')) = lost d') \<and>
   (loses_connection d'' \<longrightarrow>
      snd (employees d'') = force_close (d''\<lparr>statements := statements d'' @ [SELECT_employees]\<rparr>))"
  by (simp add: employees_store force_close_def)

text \<open>The store of Alice and Bob, and the store that loses the connection.\<close>

theorem employees_read_only_witness:
  "\<not> loses_connection alice_bob_db \<and>
   statements (snd (employees alice_bob_db)) = [SELECT_employees] \<and>
   answer (snd (employees alice_bob_db)) = answer alice_bob_db \<and>
   lost (snd (employees alice_bob_db)) = lost alice_bob_db \<and>
   loses_connection (failing_db lost_connection) \<and>
   snd (employees (failing_db lost_connection)) =
     force_close (failing_db lost_connection\<lparr>statements := [SELECT_employees]\<rparr>)"
proof -
  note h1 = alice_bob_stays and h2 = failing_db_loses [of lost_connection]
  have h3: "statements alice_bob_db = []" "statements (failing_db lost_connection) = []"
    by (simp_all add: alice_bob_db_def table_db_def failing_db_def)
  from employees_read_only [of alice_bob_db alice_bob_db "failing_db lost_connection"] h1 h2 h3
  show ?thesis by simp
qed

text \<open>
  C9 as stated fails on the failure path of a lost connection: after the call the shared
  connection is closed, so it no longer does what it did before the call.
\<close>

theorem employees_closes_lost_connection:
  "answer (failing_db lost_connection) SELECT_employees = Inl lost_connection \<and>
   answer (snd (employees (failing_db lost_connection))) SELECT_employees =
     Inl InterfaceError_closed \<and>
   answer (snd (employees (failing_db lost_connection))) SELECT_employees \<noteq>
     answer (failing_db lost_connection) SELECT_employees"
  by (simp add: employees_store failing_db_loses force_close_def)
    (simp add: failing_db_def lost_connection_def InterfaceError_closed_def)

end
